theory Spec2Isabelle
  imports Complex_Main "HOL-Library.AList"
begin

section \<open>Shared vocabulary of the two native plugins\<close>

text \<open>
  The plugin exists twice: the Java class \<^verbatim>\<open>CapacitorScreenOrientationPlugin\<close> (Android)
  and the Swift class of the same name (iOS). Both are embedded here, each with
  the fields of its class as a record, every method as a function that takes the plugin
  and returns the updated plugin together with what it did to the outside world.
  Names shared by the two classes carry the suffix \<open>_android\<close> or \<open>_ios\<close>.

  Orientation labels are strings in both sources and stay strings here. Java \<open>float\<close>
  and Swift \<open>Double\<close> acceleration components are only compared and negated, never
  computed with, so finite samples are modelled exactly by \<open>real\<close>; NaN and the
  infinities are outside the model.
\<close>

datatype exn = NullPointerException

datatype js_value = JBool bool | JString string

type_synonym JSObject = "(string \<times> js_value) list"

definition put :: "string \<Rightarrow> js_value \<Rightarrow> JSObject \<Rightarrow> JSObject" where
  "put k v obj = AList.update k v obj"

text \<open>How a bridged call ends: \<open>call.resolve\<close>, \<open>call.reject\<close>, or an exception that
  leaves the method.\<close>

datatype call_result =
    Resolved "JSObject option"
  | Rejected string "exn option"
  | Uncaught exn

text \<open>What a method does to the platform, in program order.\<close>

datatype effect =
    NotifyListeners string JSObject
  | RegisterListener
  | UnregisterListener
  | StartAccelerometerUpdates
  | StopAccelerometerUpdates
  | Log string

text \<open>The options of a bridged call that the plugin reads: \<open>call.getString("orientation")\<close>
  and \<open>call.getBoolean("bypassOrientationLock")\<close>, each absent or present.\<close>

record PluginCall =
  orientationOption :: "string option"
  bypassOrientationLockOption :: "bool option"

text \<open>The event both plugins emit: \<open>notifyListeners("screenOrientationChange", {type})\<close>.\<close>

definition screenOrientationChange :: "string \<Rightarrow> effect" where
  "screenOrientationChange orientationType =
     NotifyListeners ''screenOrientationChange'' (put ''type'' (JString orientationType) [])"

text \<open>The four orientation labels (\<open>OrientationType\<close> of the TypeScript definitions).\<close>

definition labels :: "string set" where
  "labels = {''portrait-primary'', ''portrait-secondary'',
             ''landscape-primary'', ''landscape-secondary''}"

text \<open>How many sensor subscriptions a run established: calls of \<open>registerListener\<close>
  on Android, of \<open>startAccelerometerUpdates\<close> on iOS.\<close>

definition countRegistrations :: "effect list \<Rightarrow> nat" where
  "countRegistrations es = length (filter (\<lambda>e. e = RegisterListener) es)"

definition countSubscriptions :: "effect list \<Rightarrow> nat" where
  "countSubscriptions es = length (filter (\<lambda>e. e = StartAccelerometerUpdates) es)"

text \<open>
  A callback invoked once per delivered item, in order: the plugin is threaded through
  the calls and the effects of the calls are concatenated. This is how the platform
  drives \<open>onSensorChanged\<close> and the accelerometer handler.
\<close>

fun feed :: "('s \<Rightarrow> 'a \<Rightarrow> 's \<times> effect list) \<Rightarrow> 's \<Rightarrow> 'a list \<Rightarrow> 's \<times> effect list" where
  "feed step s [] = (s, [])"
| "feed step s (x # xs) =
     (let (s1, es1) = step s x;
          (s2, es2) = feed step s1 xs
      in (s2, es1 @ es2))"

section \<open>Android: CapacitorScreenOrientationPlugin.java\<close>

subsection \<open>Constants of the Android SDK used by the class\<close>

definition ORIENTATION_PORTRAIT :: int where "ORIENTATION_PORTRAIT = 1"
definition ORIENTATION_LANDSCAPE :: int where "ORIENTATION_LANDSCAPE = 2"
definition ROTATION_0 :: int where "ROTATION_0 = 0"
definition ROTATION_90 :: int where "ROTATION_90 = 1"
definition ROTATION_180 :: int where "ROTATION_180 = 2"
definition ROTATION_270 :: int where "ROTATION_270 = 3"
definition TYPE_ACCELEROMETER :: int where "TYPE_ACCELEROMETER = 1"
definition SCREEN_ORIENTATION_UNSPECIFIED :: int where "SCREEN_ORIENTATION_UNSPECIFIED = - 1"
definition SCREEN_ORIENTATION_LANDSCAPE :: int where "SCREEN_ORIENTATION_LANDSCAPE = 0"
definition SCREEN_ORIENTATION_PORTRAIT :: int where "SCREEN_ORIENTATION_PORTRAIT = 1"
definition SCREEN_ORIENTATION_NOSENSOR :: int where "SCREEN_ORIENTATION_NOSENSOR = 5"
definition SCREEN_ORIENTATION_SENSOR_LANDSCAPE :: int where "SCREEN_ORIENTATION_SENSOR_LANDSCAPE = 6"
definition SCREEN_ORIENTATION_SENSOR_PORTRAIT :: int where "SCREEN_ORIENTATION_SENSOR_PORTRAIT = 7"
definition SCREEN_ORIENTATION_REVERSE_LANDSCAPE :: int where "SCREEN_ORIENTATION_REVERSE_LANDSCAPE = 8"
definition SCREEN_ORIENTATION_REVERSE_PORTRAIT :: int where "SCREEN_ORIENTATION_REVERSE_PORTRAIT = 9"

subsection \<open>State\<close>

text \<open>
  What the class reads from and writes to \<open>getActivity()\<close>: the orientation of the
  resources' configuration, the rotation of the default display, and the requested
  orientation.
\<close>

record Activity =
  configOrientation :: int
  displayRotation :: int
  requestedOrientation :: int

text \<open>The argument of \<open>handleOnConfigurationChanged\<close>; only its \<open>orientation\<close> is read.\<close>

record Configuration =
  orientation :: int

text \<open>The argument of \<open>onSensorChanged\<close>: \<open>event.sensor.getType()\<close> and the three entries
  of \<open>event.values\<close>.\<close>

record SensorEvent =
  sensorType :: int
  valuesX :: real
  valuesY :: real
  valuesZ :: real

text \<open>
  The fields of the class. \<open>activity\<close> is what \<open>getActivity()\<close> returns (\<open>None\<close> for
  \<open>null\<close>, on which every access throws); \<open>sensorManager\<close> and \<open>accelerometer\<close> say
  whether the field of that name is non-null.
\<close>

record AndroidPlugin =
  activity :: "Activity option"
  currentOrientation :: int
  sensorManager :: bool
  accelerometer :: bool
  isTrackingMotion :: bool
  currentPhysicalOrientation :: string
  lastNotifiedOrientation_android :: "string option"

text \<open>The field initialisers of the class, for a plugin attached to activity \<open>a\<close>.\<close>

definition new_android :: "Activity option \<Rightarrow> AndroidPlugin" where
  "new_android a =
     \<lparr> activity = a, currentOrientation = 0, sensorManager = False, accelerometer = False,
       isTrackingMotion = False, currentPhysicalOrientation = ''portrait-primary'',
       lastNotifiedOrientation_android = None \<rparr>"

text \<open>\<open>load()\<close>; \<open>hasManager\<close> and \<open>hasSensor\<close> say whether \<open>getSystemService\<close> and
  \<open>getDefaultSensor\<close> return an object.\<close>

definition load_android :: "AndroidPlugin \<Rightarrow> bool \<Rightarrow> bool \<Rightarrow> exn + AndroidPlugin" where
  "load_android s hasManager hasSensor =
     (case activity s of
        None \<Rightarrow> Inl NullPointerException
      | Some a \<Rightarrow>
          let s1 = s\<lparr>currentOrientation := configOrientation a\<rparr>;
              s2 = s1\<lparr>sensorManager := hasManager\<rparr>
          in Inr (if sensorManager s2 then s2\<lparr>accelerometer := hasSensor\<rparr> else s2))"

subsection \<open>Helpers\<close>

definition getCurrentOrientationType_android :: "AndroidPlugin \<Rightarrow> exn + string" where
  "getCurrentOrientationType_android s =
     (case activity s of
        None \<Rightarrow> Inl NullPointerException
      | Some a \<Rightarrow>
          Inr (if configOrientation a = ORIENTATION_PORTRAIT
               then (if displayRotation a = ROTATION_0
                     then ''portrait-primary'' else ''portrait-secondary'')
               else (if displayRotation a = ROTATION_90
                     then ''landscape-primary'' else ''landscape-secondary'')))"

definition getOrientationConstant :: "string \<Rightarrow> int" where
  "getOrientationConstant orientationString =
     (if orientationString = ''any'' then SCREEN_ORIENTATION_UNSPECIFIED
      else if orientationString = ''natural'' then SCREEN_ORIENTATION_NOSENSOR
      else if orientationString = ''landscape'' then SCREEN_ORIENTATION_SENSOR_LANDSCAPE
      else if orientationString = ''portrait'' then SCREEN_ORIENTATION_SENSOR_PORTRAIT
      else if orientationString = ''portrait-primary'' then SCREEN_ORIENTATION_PORTRAIT
      else if orientationString = ''portrait-secondary'' then SCREEN_ORIENTATION_REVERSE_PORTRAIT
      else if orientationString = ''landscape-primary'' then SCREEN_ORIENTATION_LANDSCAPE
      else if orientationString = ''landscape-secondary'' then SCREEN_ORIENTATION_REVERSE_LANDSCAPE
      else SCREEN_ORIENTATION_UNSPECIFIED)"

definition notifyOrientationChange_android :: "AndroidPlugin \<Rightarrow> exn + effect list" where
  "notifyOrientationChange_android s =
     (case getCurrentOrientationType_android s of
        Inl e \<Rightarrow> Inl e
      | Inr t \<Rightarrow> Inr [screenOrientationChange t])"

subsection \<open>Motion tracking\<close>

text \<open>\<open>startMotionTracking()\<close>. The flag is set before \<open>sensorManager.registerListener\<close>
  is called, so a null \<open>sensorManager\<close> throws with the flag already set.\<close>

definition startMotionTracking_android ::
  "AndroidPlugin \<Rightarrow> AndroidPlugin \<times> effect list \<times> exn option" where
  "startMotionTracking_android s =
     (if isTrackingMotion s \<or> \<not> accelerometer s then (s, [], None)
      else
        let s1 = s\<lparr>isTrackingMotion := True\<rparr> in
        if \<not> sensorManager s1 then (s1, [], Some NullPointerException)
        else (s1, [RegisterListener, Log ''Started motion-based orientation tracking''], None))"

definition stopMotionTracking_android :: "AndroidPlugin \<Rightarrow> AndroidPlugin \<times> effect list" where
  "stopMotionTracking_android s =
     (if \<not> isTrackingMotion s then (s, [])
      else
        let s1 = s\<lparr>isTrackingMotion := False\<rparr> in
        (s1, (if sensorManager s1 then [UnregisterListener] else [])
             @ [Log ''Stopped motion-based orientation tracking'']))"

definition determinePhysicalOrientation :: "AndroidPlugin \<Rightarrow> real \<Rightarrow> real \<Rightarrow> real \<Rightarrow> string" where
  "determinePhysicalOrientation s x y z =
     (let threshold = 5 in
      if \<bar>x\<bar> > threshold \<and> \<bar>x\<bar> > \<bar>y\<bar>
      then (if x > 0 then ''landscape-primary'' else ''landscape-secondary'')
      else if \<bar>y\<bar> > threshold
      then (if y > 0 then ''portrait-primary'' else ''portrait-secondary'')
      else currentPhysicalOrientation s)"

text \<open>The second half of \<open>onSensorChanged\<close> (from \<open>if (!newOrientation.equals(...))\<close> on):
  what the tracker does with a classified sample.\<close>

definition onSample_android :: "AndroidPlugin \<Rightarrow> string \<Rightarrow> AndroidPlugin \<times> effect list" where
  "onSample_android s newOrientation =
     (if newOrientation \<noteq> currentPhysicalOrientation s then
        let s1 = s\<lparr>currentPhysicalOrientation := newOrientation\<rparr> in
        if Some newOrientation \<noteq> lastNotifiedOrientation_android s1
        then (s1\<lparr>lastNotifiedOrientation_android := Some newOrientation\<rparr>,
              [screenOrientationChange newOrientation])
        else (s1, [])
      else (s, []))"

definition onSensorChanged :: "AndroidPlugin \<Rightarrow> SensorEvent \<Rightarrow> AndroidPlugin \<times> effect list" where
  "onSensorChanged s event =
     (if sensorType event \<noteq> TYPE_ACCELEROMETER then (s, [])
      else
        let x = valuesX event; y = valuesY event; z = valuesZ event;
            newOrientation = determinePhysicalOrientation s x y z
        in onSample_android s newOrientation)"

text \<open>The sensor service delivering a sequence of events, one call of \<open>onSensorChanged\<close>
  each; and the same for already classified samples.\<close>

definition feedSensor :: "AndroidPlugin \<Rightarrow> SensorEvent list \<Rightarrow> AndroidPlugin \<times> effect list" where
  "feedSensor s events = feed onSensorChanged s events"

definition feedSamples_android :: "AndroidPlugin \<Rightarrow> string list \<Rightarrow> AndroidPlugin \<times> effect list" where
  "feedSamples_android s ls = feed onSample_android s ls"

subsection \<open>The configuration-change handler\<close>

text \<open>\<open>handleOnConfigurationChanged\<close>, after the call of the superclass method.
  \<open>currentOrientation\<close> is assigned before \<open>notifyOrientationChange()\<close> runs, so the
  assignment survives an exception thrown there.\<close>

definition handleOnConfigurationChanged ::
  "AndroidPlugin \<Rightarrow> Configuration \<Rightarrow> AndroidPlugin \<times> effect list \<times> exn option" where
  "handleOnConfigurationChanged s newConfig =
     (if isTrackingMotion s then (s, [], None)
      else if currentOrientation s \<noteq> orientation newConfig then
        let s1 = s\<lparr>currentOrientation := orientation newConfig\<rparr> in
        (case notifyOrientationChange_android s1 of
           Inl e \<Rightarrow> (s1, [], Some e)
         | Inr es \<Rightarrow> (s1, es, None))
      else (s, [], None))"

text \<open>
  The platform's side of a configuration change: Android installs the new orientation
  and rotation in the activity and then calls the handler with the new configuration.
  Without an activity there is nothing to rotate.
\<close>

definition configurationChanged ::
  "AndroidPlugin \<Rightarrow> int \<Rightarrow> int \<Rightarrow> AndroidPlugin \<times> effect list \<times> exn option" where
  "configurationChanged s newOrientation newRotation =
     (case activity s of
        None \<Rightarrow> (s, [], None)
      | Some a \<Rightarrow>
          handleOnConfigurationChanged
            (s\<lparr>activity := Some (a\<lparr>configOrientation := newOrientation,
                                    displayRotation := newRotation\<rparr>)\<rparr>)
            \<lparr>orientation = newOrientation\<rparr>)"

subsection \<open>Plugin methods\<close>

definition orientation_android :: "AndroidPlugin \<Rightarrow> call_result" where
  "orientation_android s =
     (case getCurrentOrientationType_android s of
        Inl e \<Rightarrow> Rejected ''Could not get orientation'' (Some e)
      | Inr t \<Rightarrow> Resolved (Some (put ''type'' (JString t) [])))"

definition lock_android ::
  "AndroidPlugin \<Rightarrow> PluginCall \<Rightarrow> AndroidPlugin \<times> effect list \<times> call_result" where
  "lock_android s call =
     (let orientationString = orientationOption call;
          bypassLock = (case bypassOrientationLockOption call of None \<Rightarrow> False | Some b \<Rightarrow> b)
      in case orientationString of
           None \<Rightarrow> (s, [], Rejected ''Orientation parameter is required'' None)
         | Some str \<Rightarrow>
             (case activity s of
                None \<Rightarrow> (s, [], Rejected ''Could not lock orientation'' (Some NullPointerException))
              | Some a \<Rightarrow>
                  let s1 = s\<lparr>activity :=
                              Some (a\<lparr>requestedOrientation := getOrientationConstant str\<rparr>)\<rparr>
                  in if bypassLock then
                       (case startMotionTracking_android s1 of
                          (s2, es, None) \<Rightarrow> (s2, es, Resolved None)
                        | (s2, es, Some e) \<Rightarrow>
                            (s2, es, Rejected ''Could not lock orientation'' (Some e)))
                     else (s1, [], Resolved None)))"

definition unlock_android :: "AndroidPlugin \<Rightarrow> AndroidPlugin \<times> effect list \<times> call_result" where
  "unlock_android s =
     (let (s1, es) = stopMotionTracking_android s in
      case activity s1 of
        None \<Rightarrow> (s1, es, Rejected ''Could not unlock orientation'' (Some NullPointerException))
      | Some a \<Rightarrow>
          (s1\<lparr>activity := Some (a\<lparr>requestedOrientation := SCREEN_ORIENTATION_UNSPECIFIED\<rparr>)\<rparr>,
           es, Resolved None))"

definition startOrientationTracking_android ::
  "AndroidPlugin \<Rightarrow> PluginCall \<Rightarrow> AndroidPlugin \<times> effect list \<times> call_result" where
  "startOrientationTracking_android s call =
     (let bypassLock = (case bypassOrientationLockOption call of None \<Rightarrow> False | Some b \<Rightarrow> b)
      in if bypassLock then
           (case startMotionTracking_android s of
              (s1, es, None) \<Rightarrow> (s1, es, Resolved None)
            | (s1, es, Some e) \<Rightarrow> (s1, es, Uncaught e))
         else (s, [], Resolved None))"

definition stopOrientationTracking_android ::
  "AndroidPlugin \<Rightarrow> AndroidPlugin \<times> effect list \<times> call_result" where
  "stopOrientationTracking_android s =
     (let (s1, es) = stopMotionTracking_android s in (s1, es, Resolved None))"

definition isOrientationLocked_android :: "AndroidPlugin \<Rightarrow> call_result" where
  "isOrientationLocked_android s =
     (case getCurrentOrientationType_android s of
        Inl e \<Rightarrow> Rejected ''Could not check orientation lock status'' (Some e)
      | Inr uiOrientation \<Rightarrow>
          if isTrackingMotion s then
            let locked = (currentPhysicalOrientation s \<noteq> uiOrientation) in
            Resolved (Some (put ''uiOrientation'' (JString uiOrientation)
                           (put ''physicalOrientation'' (JString (currentPhysicalOrientation s))
                           (put ''locked'' (JBool locked) []))))
          else
            Resolved (Some (put ''uiOrientation'' (JString uiOrientation)
                           (put ''locked'' (JBool False) []))))"

section \<open>iOS: the Swift class CapacitorScreenOrientationPlugin\<close>

subsection \<open>State\<close>

datatype UIDeviceOrientation =
    DeviceUnknown | DevicePortrait | DevicePortraitUpsideDown
  | DeviceLandscapeLeft | DeviceLandscapeRight | DeviceFaceUp | DeviceFaceDown

datatype UIInterfaceOrientation =
    InterfaceUnknown | InterfacePortrait | InterfacePortraitUpsideDown
  | InterfaceLandscapeLeft | InterfaceLandscapeRight

datatype UIInterfaceOrientationMask =
    MaskAll | MaskPortrait | MaskLandscape | MaskPortraitUpsideDown
  | MaskLandscapeLeft | MaskLandscapeRight

record CMAcceleration =
  ax :: real
  ay :: real
  az :: real

record CMMotionManager =
  accelerometerUpdateInterval :: real
  gyroUpdateInterval :: real

text \<open>
  The stored properties of the class, then what it reads from UIKit and Core Motion:
  \<open>UIDevice.current.orientation\<close>, the interface orientation of the first window's
  scene (\<open>None\<close> when the optional chain is nil) and \<open>isAccelerometerAvailable\<close>.
\<close>

record IOSPlugin =
  motionManager :: "CMMotionManager option"
  currentDeviceOrientation :: UIDeviceOrientation
  isTrackingWithMotion :: bool
  lastNotifiedOrientation_ios :: "string option"
  deviceOrientation :: UIDeviceOrientation
  interfaceOrientation :: "UIInterfaceOrientation option"
  isAccelerometerAvailable :: bool

definition new_ios :: "UIDeviceOrientation \<Rightarrow> UIInterfaceOrientation option \<Rightarrow> bool \<Rightarrow> IOSPlugin" where
  "new_ios dev iface avail =
     \<lparr> motionManager = None, currentDeviceOrientation = DevicePortrait,
       isTrackingWithMotion = False, lastNotifiedOrientation_ios = None,
       deviceOrientation = dev, interfaceOrientation = iface,
       isAccelerometerAvailable = avail \<rparr>"

subsection \<open>Helpers\<close>


definition mapInterfaceOrientationToString :: "UIInterfaceOrientation \<Rightarrow> string" where
  "mapInterfaceOrientationToString i =
     (case i of
        InterfacePortrait \<Rightarrow> ''portrait-primary''
      | InterfacePortraitUpsideDown \<Rightarrow> ''portrait-secondary''
      | InterfaceLandscapeLeft \<Rightarrow> ''landscape-primary''
      | InterfaceLandscapeRight \<Rightarrow> ''landscape-secondary''
      | _ \<Rightarrow> ''portrait-primary'')"

definition mapDeviceOrientationToString :: "UIDeviceOrientation \<Rightarrow> string" where
  "mapDeviceOrientationToString d =
     (case d of
        DevicePortrait \<Rightarrow> ''portrait-primary''
      | DevicePortraitUpsideDown \<Rightarrow> ''portrait-secondary''
      | DeviceLandscapeLeft \<Rightarrow> ''landscape-secondary''
      | DeviceLandscapeRight \<Rightarrow> ''landscape-primary''
      | _ \<Rightarrow> ''portrait-primary'')"

definition getOrientationMask :: "string \<Rightarrow> UIInterfaceOrientationMask option" where
  "getOrientationMask orientationString =
     (if orientationString = ''any'' then Some MaskAll
      else if orientationString = ''natural'' \<or> orientationString = ''portrait''
        then Some MaskPortrait
      else if orientationString = ''landscape'' then Some MaskLandscape
      else if orientationString = ''portrait-primary'' then Some MaskPortrait
      else if orientationString = ''portrait-secondary'' then Some MaskPortraitUpsideDown
      else if orientationString = ''landscape-primary'' then Some MaskLandscapeLeft
      else if orientationString = ''landscape-secondary'' then Some MaskLandscapeRight
      else None)"

definition getCurrentOrientationType_ios :: "IOSPlugin \<Rightarrow> string" where
  "getCurrentOrientationType_ios s =
     mapInterfaceOrientationToString
       (case interfaceOrientation s of None \<Rightarrow> InterfacePortrait | Some i \<Rightarrow> i)"

definition notifyOrientationChange_ios ::
  "IOSPlugin \<Rightarrow> UIDeviceOrientation \<Rightarrow> IOSPlugin \<times> effect list" where
  "notifyOrientationChange_ios s dev =
     (let orientationType = mapDeviceOrientationToString dev in
      if Some orientationType \<noteq> lastNotifiedOrientation_ios s
      then (s\<lparr>lastNotifiedOrientation_ios := Some orientationType\<rparr>,
            [screenOrientationChange orientationType])
      else (s, []))"

subsection \<open>Core Motion tracking\<close>

definition determineOrientation :: "IOSPlugin \<Rightarrow> CMAcceleration \<Rightarrow> UIDeviceOrientation" where
  "determineOrientation s acceleration =
     (let threshold = 0.5 in
      if ax acceleration < - threshold then DeviceLandscapeRight
      else if ax acceleration > threshold then DeviceLandscapeLeft
      else if ay acceleration < - threshold then DevicePortrait
      else if ay acceleration > threshold then DevicePortraitUpsideDown
      else currentDeviceOrientation s)"

text \<open>The body of the accelerometer handler after classification: what the tracker
  does with a classified sample.\<close>

definition onSample_ios :: "IOSPlugin \<Rightarrow> UIDeviceOrientation \<Rightarrow> IOSPlugin \<times> effect list" where
  "onSample_ios s dev =
     (if dev \<noteq> currentDeviceOrientation s
      then notifyOrientationChange_ios (s\<lparr>currentDeviceOrientation := dev\<rparr>) dev
      else (s, []))"

text \<open>The closure passed to \<open>startAccelerometerUpdates\<close>; \<open>data\<close> is nil when Core
  Motion delivers an error instead of a sample.\<close>

definition accelerometerHandler :: "IOSPlugin \<Rightarrow> CMAcceleration option \<Rightarrow> IOSPlugin \<times> effect list" where
  "accelerometerHandler s data =
     (case data of
        None \<Rightarrow> (s, [])
      | Some acceleration \<Rightarrow> onSample_ios s (determineOrientation s acceleration))"

definition feedAccelerometer ::
  "IOSPlugin \<Rightarrow> CMAcceleration option list \<Rightarrow> IOSPlugin \<times> effect list" where
  "feedAccelerometer s ds = feed accelerometerHandler s ds"

definition feedSamples_ios :: "IOSPlugin \<Rightarrow> UIDeviceOrientation list \<Rightarrow> IOSPlugin \<times> effect list" where
  "feedSamples_ios s ds = feed onSample_ios s ds"

text \<open>\<open>startMotionTracking()\<close>. A fresh \<open>CMMotionManager\<close> is stored on every call that
  passes the first guard, whether or not the accelerometer is available.\<close>

definition startMotionTracking_ios :: "IOSPlugin \<Rightarrow> IOSPlugin \<times> effect list" where
  "startMotionTracking_ios s =
     (if isTrackingWithMotion s then (s, [])
      else
        let s1 = s\<lparr>motionManager :=
                    Some \<lparr>accelerometerUpdateInterval = 0.2, gyroUpdateInterval = 0.2\<rparr>\<rparr>
        in if isAccelerometerAvailable s1
           then (s1\<lparr>isTrackingWithMotion := True\<rparr>,
                 [StartAccelerometerUpdates, Log ''Started motion-based orientation tracking''])
           else (s1, [Log ''Accelerometer not available'']))"

definition stopMotionTracking_ios :: "IOSPlugin \<Rightarrow> IOSPlugin \<times> effect list" where
  "stopMotionTracking_ios s =
     (if \<not> isTrackingWithMotion s then (s, [])
      else
        (s\<lparr>motionManager := None, isTrackingWithMotion := False\<rparr>,
         (if motionManager s \<noteq> None then [StopAccelerometerUpdates] else [])
         @ [Log ''Stopped motion-based orientation tracking'']))"

subsection \<open>The orientation notification\<close>


subsection \<open>Plugin methods\<close>

definition orientation_ios :: "IOSPlugin \<Rightarrow> call_result" where
  "orientation_ios s = Resolved (Some (put ''type'' (JString (getCurrentOrientationType_ios s)) []))"

text \<open>\<open>lock\<close> and \<open>unlock\<close> post their bodies to the main queue; the model runs the
  posted block at once.\<close>

definition lock_ios :: "IOSPlugin \<Rightarrow> PluginCall \<Rightarrow> IOSPlugin \<times> effect list \<times> call_result" where
  "lock_ios s call =
     (case orientationOption call of
        None \<Rightarrow> (s, [], Rejected ''Orientation parameter is required'' None)
      | Some orientationString \<Rightarrow>
          let bypassLock = (case bypassOrientationLockOption call of None \<Rightarrow> False | Some b \<Rightarrow> b);
              es1 = (case getOrientationMask orientationString of
                       Some _ \<Rightarrow> [Log (''Locking orientation to: '' @ orientationString)]
                     | None \<Rightarrow> []);
              (s1, es2) = (if bypassLock then startMotionTracking_ios s else (s, []))
          in (s1, es1 @ es2, Resolved None))"

definition unlock_ios :: "IOSPlugin \<Rightarrow> IOSPlugin \<times> effect list \<times> call_result" where
  "unlock_ios s =
     (let (s1, es) = stopMotionTracking_ios s
      in (s1, es @ [Log ''Unlocking orientation''], Resolved None))"

definition startOrientationTracking_ios ::
  "IOSPlugin \<Rightarrow> PluginCall \<Rightarrow> IOSPlugin \<times> effect list \<times> call_result" where
  "startOrientationTracking_ios s call =
     (let bypassLock = (case bypassOrientationLockOption call of None \<Rightarrow> False | Some b \<Rightarrow> b);
          (s1, es) = (if bypassLock then startMotionTracking_ios s else (s, []))
      in (s1, es, Resolved None))"

definition stopOrientationTracking_ios :: "IOSPlugin \<Rightarrow> IOSPlugin \<times> effect list \<times> call_result" where
  "stopOrientationTracking_ios s =
     (let (s1, es) = stopMotionTracking_ios s in (s1, es, Resolved None))"

definition isOrientationLocked_ios :: "IOSPlugin \<Rightarrow> call_result" where
  "isOrientationLocked_ios s =
     (let uiOrientation = getCurrentOrientationType_ios s in
      if isTrackingWithMotion s then
        let physicalOrientation = mapDeviceOrientationToString (currentDeviceOrientation s);
            locked = (physicalOrientation \<noteq> uiOrientation)
        in Resolved (Some (put ''uiOrientation'' (JString uiOrientation)
                          (put ''physicalOrientation'' (JString physicalOrientation)
                          (put ''locked'' (JBool locked) []))))
      else
        Resolved (Some (put ''uiOrientation'' (JString uiOrientation)
                       (put ''locked'' (JBool False) []))))"

section \<open>Observations and sample states\<close>

text \<open>The payloads of the \<open>screenOrientationChange\<close> events among the effects of a run,
  in the order in which the listeners receive them.\<close>

fun emitted :: "effect list \<Rightarrow> JSObject list" where
  "emitted [] = []"
| "emitted (NotifyListeners eventName payload # es) =
     (if eventName = ''screenOrientationChange'' then payload # emitted es else emitted es)"
| "emitted (_ # es) = emitted es"

text \<open>The value stored under a key of the object a call resolved with; \<open>None\<close> when
  the key is absent or the call did not resolve with an object.\<close>

definition resultField :: "call_result \<Rightarrow> string \<Rightarrow> js_value option" where
  "resultField r k = (case r of Resolved (Some obj) \<Rightarrow> map_of obj k | _ \<Rightarrow> None)"

text \<open>An activity in upright portrait with no orientation requested, and the Android
  plugin right after \<open>load()\<close> on it: on a device with an accelerometer, and on one
  without.\<close>

definition uprightActivity :: Activity where
  "uprightActivity =
     \<lparr> configOrientation = ORIENTATION_PORTRAIT, displayRotation = ROTATION_0,
       requestedOrientation = SCREEN_ORIENTATION_UNSPECIFIED \<rparr>"

definition fresh_android :: AndroidPlugin where
  "fresh_android =
     \<lparr> activity = Some uprightActivity, currentOrientation = ORIENTATION_PORTRAIT,
       sensorManager = True, accelerometer = True, isTrackingMotion = False,
       currentPhysicalOrientation = ''portrait-primary'',
       lastNotifiedOrientation_android = None \<rparr>"

definition sensorless_android :: AndroidPlugin where
  "sensorless_android = fresh_android\<lparr>accelerometer := False\<rparr>"

text \<open>The iOS plugin right after construction, held upright, with an accelerometer.\<close>

definition fresh_ios :: IOSPlugin where
  "fresh_ios = new_ios DevicePortrait (Some InterfacePortrait) True"

text \<open>The options \<open>{bypassOrientationLock: true}\<close>.\<close>

definition bypassCall :: PluginCall where
  "bypassCall = \<lparr> orientationOption = None, bypassOrientationLockOption = Some True \<rparr>"

text \<open>\<open>startOrientationTracking({bypassOrientationLock: true})\<close> called twice in a row:
  the final plugin, the effects of both calls in order, and how the two calls ended.\<close>

definition startTwice_android ::
  "AndroidPlugin \<Rightarrow> AndroidPlugin \<times> effect list \<times> call_result list" where
  "startTwice_android s =
     (let (s1, es1, r1) = startOrientationTracking_android s bypassCall;
          (s2, es2, r2) = startOrientationTracking_android s1 bypassCall
      in (s2, es1 @ es2, [r1, r2]))"

definition startTwice_ios :: "IOSPlugin \<Rightarrow> IOSPlugin \<times> effect list \<times> call_result list" where
  "startTwice_ios s =
     (let (s1, es1, r1) = startOrientationTracking_ios s bypassCall;
          (s2, es2, r2) = startOrientationTracking_ios s1 bypassCall
      in (s2, es1 @ es2, [r1, r2]))"

text \<open>The Android plugin after this history: loaded upright, tracking started, the
  device turned to landscape (rotation 90) while tracking, tracking stopped.\<close>

definition afterTrackedRotation :: AndroidPlugin where
  "afterTrackedRotation =
     (let (s1, es1, r1) = startOrientationTracking_android fresh_android bypassCall;
          (s2, es2, x2) = configurationChanged s1 ORIENTATION_LANDSCAPE ROTATION_90;
          (s3, es3, r3) = stopOrientationTracking_android s2
      in s3)"


text \<open>
  The shape of a deduplicating step, for a plugin whose last notified label is read by
  \<open>lastOf\<close>: a call either emits nothing and keeps the last notified label, or emits one
  change event for a label other than the last notified one and records that label.
\<close>

definition dedupStep ::
  "('s \<Rightarrow> string option) \<Rightarrow> ('s \<Rightarrow> 'a \<Rightarrow> 's \<times> effect list) \<Rightarrow> bool" where
  "dedupStep lastOf step =
     (\<forall>s x. (snd (step s x) = [] \<and> lastOf (fst (step s x)) = lastOf s)
        \<or> (\<exists>l. snd (step s x) = [screenOrientationChange l]
              \<and> lastOf (fst (step s x)) = Some l \<and> lastOf s \<noteq> Some l))"

section \<open>Basic facts\<close>

lemma resultField_Resolved [simp]: "resultField (Resolved (Some obj)) k = map_of obj k"
  by (simp add: resultField_def)

lemma resultField_Rejected [simp]: "resultField (Rejected m e) k = None"
  by (simp add: resultField_def)

lemma load_fresh_android:
  "load_android (new_android (Some uprightActivity)) True True = Inr fresh_android"
  by (simp add: load_android_def new_android_def fresh_android_def uprightActivity_def)

lemma load_sensorless_android:
  "load_android (new_android (Some uprightActivity)) True False = Inr sensorless_android"
  by (simp add: load_android_def new_android_def fresh_android_def sensorless_android_def
        uprightActivity_def)

lemma emitted_append: "emitted (es1 @ es2) = emitted es1 @ emitted es2"
  by (induction es1 rule: emitted.induct) simp_all

lemma emitted_screenOrientationChange:
  "emitted [screenOrientationChange l] = [[(''type'', JString l)]]"
  by (simp add: screenOrientationChange_def put_def)

lemma length_emitted: "length (emitted es) \<le> length es"
  by (induction es rule: emitted.induct) (auto simp add: le_SucI)

lemma startOrientationTracking_android_bypass:
  "startOrientationTracking_android s bypassCall =
     (if isTrackingMotion s \<or> \<not> accelerometer s then (s, [], Resolved None)
      else if \<not> sensorManager s
        then (s\<lparr>isTrackingMotion := True\<rparr>, [], Uncaught NullPointerException)
      else (s\<lparr>isTrackingMotion := True\<rparr>,
            [RegisterListener, Log ''Started motion-based orientation tracking''],
            Resolved None))"
  by (simp add: startOrientationTracking_android_def bypassCall_def
        startMotionTracking_android_def Let_def)

lemma startOrientationTracking_ios_bypass:
  "startOrientationTracking_ios t bypassCall =
     (if isTrackingWithMotion t then (t, [], Resolved None)
      else if isAccelerometerAvailable t
        then (t\<lparr>motionManager :=
                  Some \<lparr>accelerometerUpdateInterval = 0.2, gyroUpdateInterval = 0.2\<rparr>,
                isTrackingWithMotion := True\<rparr>,
              [StartAccelerometerUpdates, Log ''Started motion-based orientation tracking''],
              Resolved None)
      else (t\<lparr>motionManager :=
                 Some \<lparr>accelerometerUpdateInterval = 0.2, gyroUpdateInterval = 0.2\<rparr>\<rparr>,
            [Log ''Accelerometer not available''], Resolved None))"
  by (simp add: startOrientationTracking_ios_def bypassCall_def
        startMotionTracking_ios_def Let_def)

lemma afterTrackedRotation_eq:
  "afterTrackedRotation =
     fresh_android\<lparr>activity := Some (uprightActivity\<lparr>configOrientation := ORIENTATION_LANDSCAPE,
                                                  displayRotation := ROTATION_90\<rparr>)\<rparr>"
  by (simp add: afterTrackedRotation_def startOrientationTracking_android_def bypassCall_def
        startMotionTracking_android_def configurationChanged_def
        handleOnConfigurationChanged_def stopOrientationTracking_android_def
        stopMotionTracking_android_def fresh_android_def Let_def)




section \<open>The lock detector\<close>

text \<open>
  C1. Whenever \<open>isOrientationLocked()\<close> produces a result, \<open>locked\<close> is true exactly when
  motion tracking is active and the tracker's physical orientation differs from the UI
  orientation; the key \<open>physicalOrientation\<close> is present exactly when tracking is active
  (and then holds the tracker's orientation); \<open>uiOrientation\<close> is always reported. On
  Android the call has a result whenever the UI orientation can be read, and is rejected
  otherwise; on iOS it always has one.
\<close>

theorem isOrientationLocked_status:
  "(getCurrentOrientationType_android s = Inr ui \<longrightarrow>
      (\<exists>ret. isOrientationLocked_android s = Resolved (Some ret))
      \<and> resultField (isOrientationLocked_android s) ''locked''
          = Some (JBool (isTrackingMotion s \<and> currentPhysicalOrientation s \<noteq> ui))
      \<and> (resultField (isOrientationLocked_android s) ''physicalOrientation'' \<noteq> None
           \<longleftrightarrow> isTrackingMotion s)
      \<and> (isTrackingMotion s \<longrightarrow>
           resultField (isOrientationLocked_android s) ''physicalOrientation''
             = Some (JString (currentPhysicalOrientation s)))
      \<and> resultField (isOrientationLocked_android s) ''uiOrientation'' = Some (JString ui))
   \<and> (getCurrentOrientationType_android s = Inl e \<longrightarrow>
      isOrientationLocked_android s
        = Rejected ''Could not check orientation lock status'' (Some e))
   \<and> (\<exists>ret. isOrientationLocked_ios t = Resolved (Some ret))
   \<and> resultField (isOrientationLocked_ios t) ''locked''
       = Some (JBool (isTrackingWithMotion t
            \<and> mapDeviceOrientationToString (currentDeviceOrientation t)
                \<noteq> getCurrentOrientationType_ios t))
   \<and> (resultField (isOrientationLocked_ios t) ''physicalOrientation'' \<noteq> None
        \<longleftrightarrow> isTrackingWithMotion t)
   \<and> (isTrackingWithMotion t \<longrightarrow>
        resultField (isOrientationLocked_ios t) ''physicalOrientation''
          = Some (JString (mapDeviceOrientationToString (currentDeviceOrientation t))))
   \<and> resultField (isOrientationLocked_ios t) ''uiOrientation''
       = Some (JString (getCurrentOrientationType_ios t))"
  by (simp add: isOrientationLocked_android_def isOrientationLocked_ios_def put_def Let_def)

text \<open>The lock-detection scenario of the spec: tracker active at landscape-primary,
  UI at portrait-primary; and a plugin without activity, whose call is rejected.\<close>

theorem isOrientationLocked_status_witness:
  "getCurrentOrientationType_android
       (fresh_android\<lparr>isTrackingMotion := True,
                       currentPhysicalOrientation := ''landscape-primary''\<rparr>)
     = Inr ''portrait-primary''
   \<and> isOrientationLocked_android
       (fresh_android\<lparr>isTrackingMotion := True,
                       currentPhysicalOrientation := ''landscape-primary''\<rparr>)
     = Resolved (Some [(''locked'', JBool True),
                       (''physicalOrientation'', JString ''landscape-primary''),
                       (''uiOrientation'', JString ''portrait-primary'')])
   \<and> resultField (isOrientationLocked_android
       (fresh_android\<lparr>isTrackingMotion := True,
                       currentPhysicalOrientation := ''landscape-primary''\<rparr>)) ''locked''
     = Some (JBool True)
   \<and> getCurrentOrientationType_android (new_android None) = Inl NullPointerException
   \<and> isOrientationLocked_android (new_android None)
     = Rejected ''Could not check orientation lock status'' (Some NullPointerException)
   \<and> resultField (isOrientationLocked_ios (fresh_ios\<lparr>isTrackingWithMotion := True,
        currentDeviceOrientation := DeviceLandscapeRight\<rparr>)) ''physicalOrientation''
     = Some (JString ''landscape-primary'')"
  using isOrientationLocked_status
          [of "fresh_android\<lparr>isTrackingMotion := True,
                               currentPhysicalOrientation := ''landscape-primary''\<rparr>"
              "''portrait-primary''" NullPointerException
              "fresh_ios\<lparr>isTrackingWithMotion := True,
                         currentDeviceOrientation := DeviceLandscapeRight\<rparr>"]
        isOrientationLocked_status
          [of "new_android None" "''portrait-primary''" NullPointerException fresh_ios]
  by (simp add: getCurrentOrientationType_android_def fresh_android_def uprightActivity_def
        new_android_def isOrientationLocked_android_def put_def
        fresh_ios_def new_ios_def mapDeviceOrientationToString_def)

section \<open>The classifiers\<close>

text \<open>
  C2. The classifier is total with hysteresis. On Android, if the previous label is
  one of the four labels then so is the result, for every real sample; a sample with
  \<open>|x|\<close> and \<open>|y|\<close> both at or below the threshold returns the previous label. The
  previous label is the plugin's current physical orientation, which is one of the four
  labels initially and stays one under \<open>onSensorChanged\<close>. On iOS the classified device
  orientation always maps to one of the four labels, and a sample at or below the
  threshold leaves the previous orientation, hence its label, unchanged.
\<close>

theorem classifier_total_hysteresis:
  "(currentPhysicalOrientation s \<in> labels \<longrightarrow> determinePhysicalOrientation s x y z \<in> labels)
   \<and> (\<bar>x\<bar> \<le> 5 \<and> \<bar>y\<bar> \<le> 5 \<longrightarrow>
        determinePhysicalOrientation s x y z = currentPhysicalOrientation s)
   \<and> currentPhysicalOrientation (new_android act) \<in> labels
   \<and> (currentPhysicalOrientation s \<in> labels \<longrightarrow>
        currentPhysicalOrientation (fst (onSensorChanged s event)) \<in> labels)
   \<and> mapDeviceOrientationToString (determineOrientation t a) \<in> labels
   \<and> (\<bar>ax a\<bar> \<le> 0.5 \<and> \<bar>ay a\<bar> \<le> 0.5 \<longrightarrow>
        determineOrientation t a = currentDeviceOrientation t
        \<and> mapDeviceOrientationToString (determineOrientation t a)
            = mapDeviceOrientationToString (currentDeviceOrientation t))"
proof -
  have a1: "currentPhysicalOrientation s \<in> labels \<longrightarrow>
              determinePhysicalOrientation s x' y' z' \<in> labels" for x' y' z'
    by (simp add: determinePhysicalOrientation_def labels_def Let_def)
  have a2: "\<bar>x\<bar> \<le> 5 \<and> \<bar>y\<bar> \<le> 5 \<longrightarrow>
              determinePhysicalOrientation s x y z = currentPhysicalOrientation s"
    by (simp add: determinePhysicalOrientation_def Let_def)
  have a3: "currentPhysicalOrientation (new_android act) \<in> labels"
    by (simp add: new_android_def labels_def)
  have a4: "currentPhysicalOrientation (fst (onSample_android s l)) = l" for l
    by (simp add: onSample_android_def Let_def)
  have a5: "currentPhysicalOrientation s \<in> labels \<longrightarrow>
              currentPhysicalOrientation (fst (onSensorChanged s event)) \<in> labels"
    using a1 a4 by (simp add: onSensorChanged_def Let_def)
  have i1: "mapDeviceOrientationToString d \<in> labels" for d
    by (cases d) (simp_all add: mapDeviceOrientationToString_def labels_def)
  have i2: "\<bar>ax a\<bar> \<le> 0.5 \<and> \<bar>ay a\<bar> \<le> 0.5 \<longrightarrow>
              determineOrientation t a = currentDeviceOrientation t"
    by (simp add: determineOrientation_def Let_def)
  from a1 a2 a3 a5 i1 i2 show ?thesis by simp
qed

theorem classifier_total_hysteresis_witness:
  "currentPhysicalOrientation fresh_android \<in> labels
   \<and> determinePhysicalOrientation fresh_android 0 0 0 = ''portrait-primary''
   \<and> determinePhysicalOrientation fresh_android 0 0 0 \<in> labels
   \<and> \<bar>0 :: real\<bar> \<le> 5
   \<and> determineOrientation fresh_ios \<lparr>ax = 0.3, ay = - 0.5, az = - 0.8\<rparr> = DevicePortrait"
  using classifier_total_hysteresis
          [of fresh_android 0 0 0 None
              "\<lparr>sensorType = TYPE_ACCELEROMETER, valuesX = 0, valuesY = 0, valuesZ = 0\<rparr>"
              fresh_ios "\<lparr>ax = 0.3, ay = - 0.5, az = - 0.8\<rparr>"]
  by (simp add: fresh_android_def labels_def fresh_ios_def new_ios_def)

text \<open>
  C3 (as amended). On Android the classifier follows the axis-priority algorithm: a
  landscape label when \<open>|x|\<close> exceeds the threshold and \<open>|x| > |y|\<close> (positive \<open>x\<close>
  primary), otherwise a portrait label when \<open>|y|\<close> exceeds the threshold (positive
  \<open>y\<close> primary), otherwise the previous label; so a sample with both axes above the
  threshold and \<open>|y| > |x|\<close> is portrait. On iOS the horizontal axis has strict
  priority: a landscape label whenever \<open>|x|\<close> exceeds the threshold, whatever \<open>y\<close> is
  (positive \<open>x\<close> secondary), otherwise a portrait label when \<open>|y|\<close> exceeds the
  threshold (negative \<open>y\<close> primary), otherwise the previous orientation.
\<close>

theorem axis_priority:
  "(\<bar>x\<bar> > 5 \<and> \<bar>x\<bar> > \<bar>y\<bar> \<longrightarrow>
      determinePhysicalOrientation s x y z
        = (if x > 0 then ''landscape-primary'' else ''landscape-secondary''))
   \<and> (\<not> (\<bar>x\<bar> > 5 \<and> \<bar>x\<bar> > \<bar>y\<bar>) \<and> \<bar>y\<bar> > 5 \<longrightarrow>
      determinePhysicalOrientation s x y z
        = (if y > 0 then ''portrait-primary'' else ''portrait-secondary''))
   \<and> (\<not> (\<bar>x\<bar> > 5 \<and> \<bar>x\<bar> > \<bar>y\<bar>) \<and> \<not> \<bar>y\<bar> > 5 \<longrightarrow>
      determinePhysicalOrientation s x y z = currentPhysicalOrientation s)
   \<and> (\<bar>x\<bar> > 5 \<and> \<bar>y\<bar> > 5 \<and> \<bar>y\<bar> > \<bar>x\<bar> \<longrightarrow>
      determinePhysicalOrientation s x y z \<in> {''portrait-primary'', ''portrait-secondary''})
   \<and> (\<bar>ax a\<bar> > 0.5 \<longrightarrow>
      mapDeviceOrientationToString (determineOrientation t a)
        = (if ax a > 0 then ''landscape-secondary'' else ''landscape-primary''))
   \<and> (\<not> \<bar>ax a\<bar> > 0.5 \<and> \<bar>ay a\<bar> > 0.5 \<longrightarrow>
      mapDeviceOrientationToString (determineOrientation t a)
        = (if ay a > 0 then ''portrait-secondary'' else ''portrait-primary''))
   \<and> (\<not> \<bar>ax a\<bar> > 0.5 \<and> \<not> \<bar>ay a\<bar> > 0.5 \<longrightarrow>
      determineOrientation t a = currentDeviceOrientation t)"
proof -
  have android: "determinePhysicalOrientation s x y z =
      (if \<bar>x\<bar> > 5 \<and> \<bar>x\<bar> > \<bar>y\<bar>
       then (if x > 0 then ''landscape-primary'' else ''landscape-secondary'')
       else if \<bar>y\<bar> > 5 then (if y > 0 then ''portrait-primary'' else ''portrait-secondary'')
       else currentPhysicalOrientation s)"
    by (simp add: determinePhysicalOrientation_def Let_def)
  have flip: "\<bar>x\<bar> > 5 \<and> \<bar>y\<bar> > 5 \<and> \<bar>y\<bar> > \<bar>x\<bar> \<longrightarrow>
      determinePhysicalOrientation s x y z \<in> {''portrait-primary'', ''portrait-secondary''}"
    unfolding android by auto
  have ios1: "\<bar>ax a\<bar> > 0.5 \<longrightarrow>
      mapDeviceOrientationToString (determineOrientation t a)
        = (if ax a > 0 then ''landscape-secondary'' else ''landscape-primary'')"
    by (auto simp add: determineOrientation_def mapDeviceOrientationToString_def Let_def)
  have ios2: "\<not> \<bar>ax a\<bar> > 0.5 \<and> \<bar>ay a\<bar> > 0.5 \<longrightarrow>
      mapDeviceOrientationToString (determineOrientation t a)
        = (if ay a > 0 then ''portrait-secondary'' else ''portrait-primary'')"
    by (auto simp add: determineOrientation_def mapDeviceOrientationToString_def Let_def)
  have ios3: "\<not> \<bar>ax a\<bar> > 0.5 \<and> \<not> \<bar>ay a\<bar> > 0.5 \<longrightarrow>
      determineOrientation t a = currentDeviceOrientation t"
    by (auto simp add: determineOrientation_def Let_def)
  from flip ios1 ios2 ios3 show ?thesis
    unfolding android by simp
qed

theorem axis_priority_witness:
  "determinePhysicalOrientation fresh_android 6 (- 9) 0 = ''portrait-secondary''
   \<and> determinePhysicalOrientation fresh_android (- 9) 6 0 = ''landscape-secondary''
   \<and> determinePhysicalOrientation fresh_android 3 6 0 = ''portrait-primary''
   \<and> determinePhysicalOrientation fresh_android 3 (- 4) 0 = ''portrait-primary''
   \<and> mapDeviceOrientationToString (determineOrientation fresh_ios \<lparr>ax = 0.6, ay = - 0.9, az = 0\<rparr>)
       = ''landscape-secondary''
   \<and> mapDeviceOrientationToString (determineOrientation fresh_ios \<lparr>ax = 0.2, ay = - 0.9, az = 0\<rparr>)
       = ''portrait-primary''
   \<and> determineOrientation fresh_ios \<lparr>ax = 0.2, ay = 0.1, az = - 1\<rparr> = DevicePortrait"
  using axis_priority [of 6 "- 9" fresh_android 0 "\<lparr>ax = 0.6, ay = - 0.9, az = 0\<rparr>" fresh_ios]
        axis_priority [of "- 9" 6 fresh_android 0 "\<lparr>ax = 0.2, ay = - 0.9, az = 0\<rparr>" fresh_ios]
        axis_priority [of 3 6 fresh_android 0 "\<lparr>ax = 0.2, ay = 0.1, az = - 1\<rparr>" fresh_ios]
        axis_priority [of 3 "- 4" fresh_android 0 "\<lparr>ax = 0.2, ay = 0.1, az = - 1\<rparr>" fresh_ios]
  by (simp add: fresh_android_def fresh_ios_def new_ios_def)

text \<open>C3 as stated fails on iOS: with both axes above the threshold and \<open>|y| > |x|\<close>
  the iOS classifier answers landscape, not portrait.\<close>

theorem axis_priority_ios_counterexample:
  "\<bar>0.6 :: real\<bar> > 0.5 \<and> \<bar>- 0.9 :: real\<bar> > 0.5 \<and> \<bar>- 0.9 :: real\<bar> > \<bar>0.6\<bar>
   \<and> mapDeviceOrientationToString
         (determineOrientation fresh_ios \<lparr>ax = 0.6, ay = - 0.9, az = 0\<rparr>)
       = ''landscape-secondary''
   \<and> mapDeviceOrientationToString
         (determineOrientation fresh_ios \<lparr>ax = 0.6, ay = - 0.9, az = 0\<rparr>)
       \<notin> {''portrait-primary'', ''portrait-secondary''}"
  by (simp add: determineOrientation_def mapDeviceOrientationToString_def Let_def)

text \<open>
  C9. The two classifiers disagree on the sign of landscape. Whatever positive factor
  \<open>k\<close> converts the iOS unit into the Android unit, there is a sample that Android
  labels landscape-primary and iOS, through its device-orientation mapping, labels
  landscape-secondary; every sample with positive \<open>x\<close> above both thresholds and
  \<open>|y| < x\<close> is one.
\<close>

theorem landscape_sign_disagreement:
  "(0 < k \<longrightarrow>
      (\<exists>x y z. determinePhysicalOrientation s (k * x) (k * y) (k * z) = ''landscape-primary''
         \<and> mapDeviceOrientationToString (determineOrientation t \<lparr>ax = x, ay = y, az = z\<rparr>)
             = ''landscape-secondary''))
   \<and> (0 < k \<and> 0.5 < x \<and> 5 < k * x \<and> \<bar>y\<bar> < x \<longrightarrow>
        determinePhysicalOrientation s (k * x) (k * y) (k * z) = ''landscape-primary''
        \<and> mapDeviceOrientationToString (determineOrientation t \<lparr>ax = x, ay = y, az = z\<rparr>)
            = ''landscape-secondary'')"
proof -
  have gen: "determinePhysicalOrientation s (k * x) (k * y) (k * z) = ''landscape-primary''
        \<and> mapDeviceOrientationToString (determineOrientation t \<lparr>ax = x, ay = y, az = z\<rparr>)
            = ''landscape-secondary''"
    if k: "0 < k" and x: "0.5 < x" and kx: "5 < k * x" and y: "\<bar>y\<bar> < x" for x y z :: real
  proof -
    have "\<bar>k * y\<bar> = k * \<bar>y\<bar>" using k by (simp add: abs_mult)
    also have "\<dots> < k * x" using k y by simp
    finally have "\<bar>k * y\<bar> < \<bar>k * x\<bar>" using kx by simp
    moreover have "5 < \<bar>k * x\<bar>" using kx by simp
    moreover have "0 < k * x" using kx by simp
    ultimately have "determinePhysicalOrientation s (k * x) (k * y) (k * z) = ''landscape-primary''"
      by (simp add: determinePhysicalOrientation_def Let_def)
    moreover have "mapDeviceOrientationToString (determineOrientation t \<lparr>ax = x, ay = y, az = z\<rparr>)
            = ''landscape-secondary''"
      using x by (simp add: determineOrientation_def mapDeviceOrientationToString_def Let_def)
    ultimately show ?thesis by simp
  qed
  have ex: "\<exists>x y z. determinePhysicalOrientation s (k * x) (k * y) (k * z) = ''landscape-primary''
         \<and> mapDeviceOrientationToString (determineOrientation t \<lparr>ax = x, ay = y, az = z\<rparr>)
             = ''landscape-secondary''" if k: "0 < k"
  proof -
    have "5 < k * (1 + 6 / k)" using k by (simp add: distrib_left)
    moreover have "0.5 < 1 + 6 / k" using k by (simp add: add_pos_nonneg)
    moreover have "\<bar>0\<bar> < 1 + 6 / k" using k by (simp add: add_pos_nonneg)
    ultimately show ?thesis using gen [OF k, of "1 + 6 / k" 0 0] by blast
  qed
  from gen ex show ?thesis by blast
qed

theorem landscape_sign_disagreement_witness:
  "(0::real) < 10
   \<and> determinePhysicalOrientation fresh_android 9 1 2 = ''landscape-primary''
   \<and> mapDeviceOrientationToString (determineOrientation fresh_ios \<lparr>ax = 0.9, ay = 0.1, az = 0.2\<rparr>)
       = ''landscape-secondary''"
  using landscape_sign_disagreement [of 10 fresh_android fresh_ios "0.9" "0.1" "0.2"]
  by simp

section \<open>The tracker\<close>

text \<open>
  C5 (as amended). What the tracker does with a classified sample: afterwards the
  current physical orientation is the sample's label; a change event with payload
  \<open>{type: label}\<close> is emitted, and the last notified label set to it, exactly when the
  label differs both from the current physical orientation held before the sample and
  from the last notified label. A sample equal to the current physical orientation
  emits nothing, also while no label has been notified yet.
\<close>

theorem onSample_step:
  "currentPhysicalOrientation (fst (onSample_android s l)) = l
   \<and> snd (onSample_android s l)
       = (if l \<noteq> currentPhysicalOrientation s \<and> lastNotifiedOrientation_android s \<noteq> Some l
          then [screenOrientationChange l] else [])
   \<and> lastNotifiedOrientation_android (fst (onSample_android s l))
       = (if l \<noteq> currentPhysicalOrientation s \<and> lastNotifiedOrientation_android s \<noteq> Some l
          then Some l else lastNotifiedOrientation_android s)
   \<and> currentDeviceOrientation (fst (onSample_ios t d)) = d
   \<and> snd (onSample_ios t d)
       = (if d \<noteq> currentDeviceOrientation t
             \<and> lastNotifiedOrientation_ios t \<noteq> Some (mapDeviceOrientationToString d)
          then [screenOrientationChange (mapDeviceOrientationToString d)] else [])
   \<and> lastNotifiedOrientation_ios (fst (onSample_ios t d))
       = (if d \<noteq> currentDeviceOrientation t
             \<and> lastNotifiedOrientation_ios t \<noteq> Some (mapDeviceOrientationToString d)
          then Some (mapDeviceOrientationToString d) else lastNotifiedOrientation_ios t)"
  by (auto simp add: onSample_android_def onSample_ios_def notifyOrientationChange_ios_def Let_def)

theorem onSample_step_witness:
  "onSample_android fresh_android ''landscape-primary''
     = (fresh_android\<lparr>currentPhysicalOrientation := ''landscape-primary'',
                       lastNotifiedOrientation_android := Some ''landscape-primary''\<rparr>,
        [NotifyListeners ''screenOrientationChange'' [(''type'', JString ''landscape-primary'')]])
   \<and> snd (onSample_android fresh_android ''portrait-primary'') = []
   \<and> snd (onSample_ios fresh_ios DeviceLandscapeLeft)
     = [NotifyListeners ''screenOrientationChange'' [(''type'', JString ''landscape-secondary'')]]
   \<and> snd (onSample_ios fresh_ios DevicePortrait) = []"
  using onSample_step [of fresh_android "''landscape-primary''" fresh_ios DeviceLandscapeLeft]
        onSample_step [of fresh_android "''portrait-primary''" fresh_ios DevicePortrait]
  by (simp add: fresh_android_def fresh_ios_def new_ios_def onSample_android_def
        screenOrientationChange_def put_def mapDeviceOrientationToString_def)

text \<open>C5 as stated fails on the freshly loaded plugin, before and after tracking is
  started: no label has been notified, the first sample classifies to the default
  portrait-primary, and no event is emitted.\<close>

theorem onSample_initial_counterexample:
  "lastNotifiedOrientation_android fresh_android = None
   \<and> ''portrait-primary'' = currentPhysicalOrientation fresh_android
   \<and> onSample_android fresh_android ''portrait-primary'' = (fresh_android, [])
   \<and> lastNotifiedOrientation_ios fresh_ios = None
   \<and> mapDeviceOrientationToString DevicePortrait = ''portrait-primary''
   \<and> onSample_ios fresh_ios DevicePortrait = (fresh_ios, [])
   \<and> isTrackingMotion (fst (startOrientationTracking_android fresh_android bypassCall))
   \<and> lastNotifiedOrientation_android
        (fst (startOrientationTracking_android fresh_android bypassCall)) = None
   \<and> snd (onSample_android (fst (startOrientationTracking_android fresh_android bypassCall))
        ''portrait-primary'') = []
   \<and> snd (onSensorChanged (fst (startOrientationTracking_android fresh_android bypassCall))
        \<lparr>sensorType = TYPE_ACCELEROMETER, valuesX = 0, valuesY = 9.8, valuesZ = 0\<rparr>) = []
   \<and> isTrackingWithMotion (fst (startOrientationTracking_ios fresh_ios bypassCall))
   \<and> lastNotifiedOrientation_ios (fst (startOrientationTracking_ios fresh_ios bypassCall)) = None
   \<and> snd (onSample_ios (fst (startOrientationTracking_ios fresh_ios bypassCall)) DevicePortrait)
       = []
   \<and> snd (accelerometerHandler (fst (startOrientationTracking_ios fresh_ios bypassCall))
        (Some \<lparr>ax = 0, ay = - 1, az = 0\<rparr>)) = []"
  by (simp add: fresh_android_def fresh_ios_def new_ios_def onSample_android_def onSample_ios_def
        mapDeviceOrientationToString_def startOrientationTracking_android_bypass
        startOrientationTracking_ios_bypass onSensorChanged_def determinePhysicalOrientation_def
        accelerometerHandler_def determineOrientation_def Let_def)

subsection \<open>Deduplication\<close>

lemma feed_dedup:
  assumes "dedupStep lastOf step"
  shows "distinct_adj (emitted (snd (feed step s xs)))
         \<and> (\<forall>l. lastOf s = Some l \<longrightarrow>
               emitted (snd (feed step s xs)) = []
               \<or> hd (emitted (snd (feed step s xs))) \<noteq> [(''type'', JString l)])"
proof (induction xs arbitrary: s)
  case Nil
  show ?case by simp
next
  case (Cons x xs)
  obtain s1 es1 where st: "step s x = (s1, es1)" by (cases "step s x")
  obtain s2 es2 where fd: "feed step s1 xs = (s2, es2)" by (cases "feed step s1 xs")
  have run: "snd (feed step s (x # xs)) = es1 @ es2" by (simp add: st fd)
  have ih1: "distinct_adj (emitted es2)" using Cons.IH [of s1] fd by simp
  have ih2: "lastOf s1 = Some l \<Longrightarrow> emitted es2 = [] \<or> hd (emitted es2) \<noteq> [(''type'', JString l)]" for l
    using Cons.IH [of s1] fd by simp
  from assms have "(es1 = [] \<and> lastOf s1 = lastOf s)
        \<or> (\<exists>l. es1 = [screenOrientationChange l] \<and> lastOf s1 = Some l \<and> lastOf s \<noteq> Some l)"
    unfolding dedupStep_def using st by (metis fst_conv snd_conv)
  then show ?case
  proof
    assume "es1 = [] \<and> lastOf s1 = lastOf s"
    then show ?thesis unfolding run using ih1 ih2 by simp
  next
    assume "\<exists>l. es1 = [screenOrientationChange l] \<and> lastOf s1 = Some l \<and> lastOf s \<noteq> Some l"
    then obtain l where l: "es1 = [screenOrientationChange l]" "lastOf s1 = Some l" "lastOf s \<noteq> Some l"
      by blast
    have em: "emitted (es1 @ es2) = [(''type'', JString l)] # emitted es2"
      unfolding l(1) emitted_append emitted_screenOrientationChange by simp
    have "distinct_adj ([(''type'', JString l)] # emitted es2)"
      using ih1 ih2 [OF l(2)] by (auto simp add: distinct_adj_Cons)
    moreover have "\<forall>l'. lastOf s = Some l' \<longrightarrow> [(''type'', JString l)] \<noteq> [(''type'', JString l')]"
      using l(3) by auto
    ultimately show ?thesis unfolding run em by simp
  qed
qed

lemma onSample_android_dedupStep: "dedupStep lastNotifiedOrientation_android onSample_android"
  by (simp add: dedupStep_def onSample_android_def Let_def)

lemma onSensorChanged_dedupStep: "dedupStep lastNotifiedOrientation_android onSensorChanged"
  using onSample_android_dedupStep
  by (simp add: dedupStep_def onSensorChanged_def Let_def)

lemma notifyOrientationChange_ios_step:
  "(snd (notifyOrientationChange_ios s d) = []
      \<and> lastNotifiedOrientation_ios (fst (notifyOrientationChange_ios s d)) = lastNotifiedOrientation_ios s)
   \<or> (\<exists>l. snd (notifyOrientationChange_ios s d) = [screenOrientationChange l]
         \<and> lastNotifiedOrientation_ios (fst (notifyOrientationChange_ios s d)) = Some l
         \<and> lastNotifiedOrientation_ios s \<noteq> Some l)"
  by (auto simp add: notifyOrientationChange_ios_def Let_def)

lemma onSample_ios_dedupStep: "dedupStep lastNotifiedOrientation_ios onSample_ios"
  unfolding dedupStep_def
proof (intro allI)
  fix s d
  show "(snd (onSample_ios s d) = [] \<and> lastNotifiedOrientation_ios (fst (onSample_ios s d)) = lastNotifiedOrientation_ios s)
     \<or> (\<exists>l. snd (onSample_ios s d) = [screenOrientationChange l]
         \<and> lastNotifiedOrientation_ios (fst (onSample_ios s d)) = Some l
         \<and> lastNotifiedOrientation_ios s \<noteq> Some l)"
    using notifyOrientationChange_ios_step [of "s\<lparr>currentDeviceOrientation := d\<rparr>" d]
    by (cases "d = currentDeviceOrientation s") (simp_all add: onSample_ios_def)
qed

lemma accelerometerHandler_dedupStep: "dedupStep lastNotifiedOrientation_ios accelerometerHandler"
  using onSample_ios_dedupStep
  by (simp add: dedupStep_def accelerometerHandler_def split: option.split)

lemma onSample_android_same:
  "currentPhysicalOrientation s = l \<Longrightarrow> feed onSample_android s (replicate n l) = (s, [])"
  by (induction n) (simp_all add: onSample_android_def)

lemma onSample_android_current:
  "currentPhysicalOrientation (fst (onSample_android s l)) = l
   \<and> length (snd (onSample_android s l)) \<le> 1"
  by (simp add: onSample_android_def Let_def)

lemma onSample_ios_same:
  "currentDeviceOrientation s = d \<Longrightarrow> feed onSample_ios s (replicate n d) = (s, [])"
  by (induction n) (simp_all add: onSample_ios_def)

lemma onSample_ios_current:
  "currentDeviceOrientation (fst (onSample_ios s d)) = d
   \<and> length (snd (onSample_ios s d)) \<le> 1"
  by (simp add: onSample_ios_def notifyOrientationChange_ios_def Let_def)

lemma feed_replicate_android:
  "length (emitted (snd (feed onSample_android s (replicate n l)))) \<le> 1"
proof (cases n)
  case 0
  then show ?thesis by simp
next
  case (Suc m)
  obtain s1 es1 where st: "onSample_android s l = (s1, es1)" by (cases "onSample_android s l")
  have c: "currentPhysicalOrientation s1 = l" "length es1 \<le> 1"
    using onSample_android_current [of s l] st by simp_all
  have "feed onSample_android s (replicate n l) = (s1, es1)"
    using Suc st onSample_android_same [OF c(1), of m] by simp
  then show ?thesis using c(2) length_emitted [of es1] by simp
qed

lemma feed_replicate_ios:
  "length (emitted (snd (feed onSample_ios s (replicate n d)))) \<le> 1"
proof (cases n)
  case 0
  then show ?thesis by simp
next
  case (Suc m)
  obtain s1 es1 where st: "onSample_ios s d = (s1, es1)" by (cases "onSample_ios s d")
  have c: "currentDeviceOrientation s1 = d" "length es1 \<le> 1"
    using onSample_ios_current [of s d] st by simp_all
  have "feed onSample_ios s (replicate n d) = (s1, es1)"
    using Suc st onSample_ios_same [OF c(1), of m] by simp
  then show ?thesis using c(2) length_emitted [of es1] by simp
qed

text \<open>
  C4. Deduplication: whatever the plugin's state, the events emitted while a finite
  sequence of samples is fed to the tracker contain no two consecutive events with
  equal payloads, for classified samples and for raw sensor samples, on Android and on
  iOS; and any number of samples in a row with the same label emit at most one event.
\<close>

theorem dedup_invariant:
  "distinct_adj (emitted (snd (feedSamples_android s ls)))
   \<and> distinct_adj (emitted (snd (feedSensor s events)))
   \<and> length (emitted (snd (feedSamples_android s (replicate n l)))) \<le> 1
   \<and> distinct_adj (emitted (snd (feedSamples_ios t ds)))
   \<and> distinct_adj (emitted (snd (feedAccelerometer t accs)))
   \<and> length (emitted (snd (feedSamples_ios t (replicate n d)))) \<le> 1"
  using feed_dedup [OF onSample_android_dedupStep, of s ls]
        feed_dedup [OF onSensorChanged_dedupStep, of s events]
        feed_dedup [OF onSample_ios_dedupStep, of t ds]
        feed_dedup [OF accelerometerHandler_dedupStep, of t accs]
        feed_replicate_android [of s n l] feed_replicate_ios [of t n d]
  by (simp add: feedSamples_android_def feedSensor_def feedSamples_ios_def feedAccelerometer_def)

theorem dedup_invariant_witness:
  "emitted (snd (feedSensor fresh_android
      [\<lparr>sensorType = TYPE_ACCELEROMETER, valuesX = 9, valuesY = 0, valuesZ = 0\<rparr>,
       \<lparr>sensorType = TYPE_ACCELEROMETER, valuesX = 8, valuesY = 1, valuesZ = 0\<rparr>,
       \<lparr>sensorType = TYPE_ACCELEROMETER, valuesX = 0, valuesY = 9, valuesZ = 0\<rparr>,
       \<lparr>sensorType = TYPE_ACCELEROMETER, valuesX = 1, valuesY = 1, valuesZ = 9\<rparr>,
       \<lparr>sensorType = TYPE_ACCELEROMETER, valuesX = - 9, valuesY = 0, valuesZ = 0\<rparr>]))
     = [[(''type'', JString ''landscape-primary'')],
        [(''type'', JString ''portrait-primary'')],
        [(''type'', JString ''landscape-secondary'')]]
   \<and> distinct_adj [[(''type'', JString ''landscape-primary'')],
        [(''type'', JString ''portrait-primary'')],
        [(''type'', JString ''landscape-secondary'')]]
   \<and> emitted (snd (feedSamples_ios fresh_ios (replicate 3 DeviceLandscapeLeft)))
     = [[(''type'', JString ''landscape-secondary'')]]"
  using dedup_invariant
    [of fresh_android "[]"
      "[\<lparr>sensorType = TYPE_ACCELEROMETER, valuesX = 9, valuesY = 0, valuesZ = 0\<rparr>,
       \<lparr>sensorType = TYPE_ACCELEROMETER, valuesX = 8, valuesY = 1, valuesZ = 0\<rparr>,
       \<lparr>sensorType = TYPE_ACCELEROMETER, valuesX = 0, valuesY = 9, valuesZ = 0\<rparr>,
       \<lparr>sensorType = TYPE_ACCELEROMETER, valuesX = 1, valuesY = 1, valuesZ = 9\<rparr>,
       \<lparr>sensorType = TYPE_ACCELEROMETER, valuesX = - 9, valuesY = 0, valuesZ = 0\<rparr>]"
      3 "''landscape-primary''" fresh_ios "[]" "[]" DeviceLandscapeLeft]
  by (simp add: feedSensor_def feedSamples_ios_def onSensorChanged_def onSample_android_def
        determinePhysicalOrientation_def fresh_android_def fresh_ios_def new_ios_def
        onSample_ios_def notifyOrientationChange_ios_def mapDeviceOrientationToString_def
        screenOrientationChange_def put_def numeral_3_eq_3 Let_def)

section \<open>The two emission sources\<close>




text \<open>
  C10 (as amended). On Android the UI path emits an event only when tracking is
  inactive and the category of the notified configuration differs from the category
  the plugin has recorded in \<open>currentOrientation\<close>. Whenever the recorded category is
  that of the activity's configuration, a rotation that keeps the category (a
  180-degree flip) emits nothing; and every configuration change handled while
  tracking is inactive leaves the recorded category equal to the activity's.
\<close>

theorem ui_path_category_only:
  "(fst (snd (handleOnConfigurationChanged s newConfig)) \<noteq> [] \<longrightarrow>
      \<not> isTrackingMotion s \<and> orientation newConfig \<noteq> currentOrientation s)
   \<and> (activity s = Some a \<and> currentOrientation s = configOrientation a \<longrightarrow>
      configurationChanged s (configOrientation a) rotation
        = (s\<lparr>activity := Some (a\<lparr>displayRotation := rotation\<rparr>)\<rparr>, [], None))
   \<and> (activity s = Some a \<and> \<not> isTrackingMotion s \<longrightarrow>
      currentOrientation (fst (configurationChanged s newOrientation rotation)) = newOrientation
      \<and> activity (fst (configurationChanged s newOrientation rotation))
          = Some (a\<lparr>configOrientation := newOrientation, displayRotation := rotation\<rparr>))"
proof -
  have h1: "fst (snd (handleOnConfigurationChanged s newConfig)) \<noteq> [] \<longrightarrow>
      \<not> isTrackingMotion s \<and> orientation newConfig \<noteq> currentOrientation s"
    by (auto simp add: handleOnConfigurationChanged_def Let_def split: if_splits)
  have h2: "activity s = Some a \<and> currentOrientation s = configOrientation a \<longrightarrow>
      configurationChanged s (configOrientation a) rotation
        = (s\<lparr>activity := Some (a\<lparr>displayRotation := rotation\<rparr>)\<rparr>, [], None)"
    by (auto simp add: configurationChanged_def handleOnConfigurationChanged_def)
  have h3: "activity s = Some a \<and> \<not> isTrackingMotion s \<longrightarrow>
      currentOrientation (fst (configurationChanged s newOrientation rotation)) = newOrientation
      \<and> activity (fst (configurationChanged s newOrientation rotation))
          = Some (a\<lparr>configOrientation := newOrientation, displayRotation := rotation\<rparr>)"
    by (auto simp add: configurationChanged_def handleOnConfigurationChanged_def Let_def
          notifyOrientationChange_android_def getCurrentOrientationType_android_def)
  from h1 h2 h3 show ?thesis by blast
qed

theorem ui_path_category_only_witness:
  "activity fresh_android = Some uprightActivity
   \<and> currentOrientation fresh_android = configOrientation uprightActivity
   \<and> configurationChanged fresh_android ORIENTATION_PORTRAIT ROTATION_180
       = (fresh_android\<lparr>activity := Some (uprightActivity\<lparr>displayRotation := ROTATION_180\<rparr>)\<rparr>,
          [], None)
   \<and> fst (snd (configurationChanged fresh_android ORIENTATION_LANDSCAPE ROTATION_90))
       = [NotifyListeners ''screenOrientationChange'' [(''type'', JString ''landscape-primary'')]]
   \<and> currentOrientation (fst (configurationChanged fresh_android ORIENTATION_LANDSCAPE ROTATION_90))
       = ORIENTATION_LANDSCAPE"
  using ui_path_category_only
          [of fresh_android "\<lparr>orientation = ORIENTATION_LANDSCAPE\<rparr>" uprightActivity
              ROTATION_180 ORIENTATION_LANDSCAPE]
        ui_path_category_only
          [of fresh_android "\<lparr>orientation = ORIENTATION_LANDSCAPE\<rparr>" uprightActivity
              ROTATION_90 ORIENTATION_LANDSCAPE]
  by (simp add: fresh_android_def uprightActivity_def configurationChanged_def
        handleOnConfigurationChanged_def notifyOrientationChange_android_def
        getCurrentOrientationType_android_def screenOrientationChange_def put_def
        ORIENTATION_PORTRAIT_def ORIENTATION_LANDSCAPE_def ROTATION_90_def ROTATION_0_def)

text \<open>C10 as stated fails after a tracked rotation: the change to landscape went
  unrecorded while tracking was active, so the flip from landscape-primary to
  landscape-secondary that follows the stop emits an event on the UI path.\<close>

theorem flip_after_tracking_counterexample:
  "\<not> isTrackingMotion afterTrackedRotation
   \<and> getCurrentOrientationType_android afterTrackedRotation = Inr ''landscape-primary''
   \<and> getCurrentOrientationType_android
         (fst (configurationChanged afterTrackedRotation ORIENTATION_LANDSCAPE ROTATION_270))
       = Inr ''landscape-secondary''
   \<and> emitted (fst (snd (configurationChanged afterTrackedRotation
                          ORIENTATION_LANDSCAPE ROTATION_270)))
       = [[(''type'', JString ''landscape-secondary'')]]"
  by (simp add: afterTrackedRotation_eq fresh_android_def uprightActivity_def
        configurationChanged_def handleOnConfigurationChanged_def
        notifyOrientationChange_android_def getCurrentOrientationType_android_def
        screenOrientationChange_def put_def
        ORIENTATION_PORTRAIT_def ORIENTATION_LANDSCAPE_def
        ROTATION_90_def ROTATION_0_def ROTATION_270_def)

section \<open>Starting motion tracking\<close>

text \<open>
  C7 (as amended). Two calls of \<open>startOrientationTracking({bypassOrientationLock: true})\<close>
  in a row establish at most one sensor subscription: exactly one when tracking was
  inactive and the accelerometer is available (on Android: the accelerometer and the
  sensor manager are both present), none otherwise. The second call changes
  nothing: the plugin after two calls is the plugin after one, and a call made while
  tracking is active leaves the plugin as it is, has no effect and resolves.
\<close>

theorem start_idempotent:
  "countRegistrations (fst (snd (startTwice_android s)))
     = (if \<not> isTrackingMotion s \<and> accelerometer s \<and> sensorManager s then 1 else 0)
   \<and> fst (startTwice_android s) = fst (startOrientationTracking_android s bypassCall)
   \<and> fst (snd (startTwice_android s)) = fst (snd (startOrientationTracking_android s bypassCall))
   \<and> (isTrackingMotion s \<longrightarrow>
        startOrientationTracking_android s bypassCall = (s, [], Resolved None))
   \<and> countSubscriptions (fst (snd (startTwice_ios t)))
     = (if \<not> isTrackingWithMotion t \<and> isAccelerometerAvailable t then 1 else 0)
   \<and> fst (startTwice_ios t) = fst (startOrientationTracking_ios t bypassCall)
   \<and> (isTrackingWithMotion t \<longrightarrow>
        startOrientationTracking_ios t bypassCall = (t, [], Resolved None))"
proof -
  have a: "countRegistrations (fst (snd (startTwice_android s)))
     = (if \<not> isTrackingMotion s \<and> accelerometer s \<and> sensorManager s then 1 else 0)
   \<and> fst (startTwice_android s) = fst (startOrientationTracking_android s bypassCall)
   \<and> fst (snd (startTwice_android s)) = fst (snd (startOrientationTracking_android s bypassCall))"
    by (simp add: startTwice_android_def startOrientationTracking_android_bypass
          countRegistrations_def)
  have i: "countSubscriptions (fst (snd (startTwice_ios t)))
     = (if \<not> isTrackingWithMotion t \<and> isAccelerometerAvailable t then 1 else 0)
   \<and> fst (startTwice_ios t) = fst (startOrientationTracking_ios t bypassCall)"
    by (simp add: startTwice_ios_def startOrientationTracking_ios_bypass
          countSubscriptions_def)
  have b: "isTrackingMotion s \<longrightarrow>
        startOrientationTracking_android s bypassCall = (s, [], Resolved None)"
    by (simp add: startOrientationTracking_android_bypass)
  have j: "isTrackingWithMotion t \<longrightarrow>
        startOrientationTracking_ios t bypassCall = (t, [], Resolved None)"
    by (simp add: startOrientationTracking_ios_bypass)
  from a b i j show ?thesis by blast
qed

theorem start_idempotent_witness:
  "startTwice_android fresh_android
     = (fresh_android\<lparr>isTrackingMotion := True\<rparr>,
        [RegisterListener, Log ''Started motion-based orientation tracking''],
        [Resolved None, Resolved None])
   \<and> countRegistrations (fst (snd (startTwice_android fresh_android))) = 1
   \<and> isTrackingMotion (fresh_android\<lparr>isTrackingMotion := True\<rparr>)
   \<and> startOrientationTracking_android (fresh_android\<lparr>isTrackingMotion := True\<rparr>) bypassCall
     = (fresh_android\<lparr>isTrackingMotion := True\<rparr>, [], Resolved None)
   \<and> countSubscriptions (fst (snd (startTwice_ios fresh_ios))) = 1
   \<and> startOrientationTracking_ios (fresh_ios\<lparr>isTrackingWithMotion := True\<rparr>) bypassCall
     = (fresh_ios\<lparr>isTrackingWithMotion := True\<rparr>, [], Resolved None)"
  using start_idempotent [of fresh_android fresh_ios]
        start_idempotent [of "fresh_android\<lparr>isTrackingMotion := True\<rparr>"
                             "fresh_ios\<lparr>isTrackingWithMotion := True\<rparr>"]
  by (simp add: fresh_android_def fresh_ios_def new_ios_def startTwice_android_def
        startOrientationTracking_android_bypass)

text \<open>C7 as stated fails on a device without accelerometer: both calls resolve and no
  subscription is established.\<close>

theorem start_sensorless_counterexample:
  "startTwice_android sensorless_android
     = (sensorless_android, [], [Resolved None, Resolved None])
   \<and> countRegistrations (fst (snd (startTwice_android sensorless_android))) = 0
   \<and> countSubscriptions (fst (snd (startTwice_ios (fresh_ios\<lparr>isAccelerometerAvailable := False\<rparr>))))
     = 0"
  by (simp add: startTwice_android_def startOrientationTracking_android_bypass
        sensorless_android_def fresh_android_def countRegistrations_def
        startTwice_ios_def startOrientationTracking_ios_bypass fresh_ios_def new_ios_def
        countSubscriptions_def)

section \<open>Locking\<close>

text \<open>
  C8. A lock request without \<open>orientation\<close> is rejected with the message
  "Orientation parameter is required" and changes nothing. A request with
  \<open>orientation\<close> resolves whenever no platform call throws (on Android: an activity is
  attached, and a sensor manager exists if an accelerometer does; on iOS: always);
  the only other outcome on Android is the rejection "Could not lock orientation".
\<close>

theorem lock_outcome:
  "(orientationOption call = None \<longrightarrow>
      lock_android s call = (s, [], Rejected ''Orientation parameter is required'' None))
   \<and> (orientationOption call \<noteq> None \<and> activity s \<noteq> None
        \<and> (accelerometer s \<longrightarrow> sensorManager s) \<longrightarrow>
      snd (snd (lock_android s call)) = Resolved None)
   \<and> (orientationOption call \<noteq> None \<longrightarrow>
      snd (snd (lock_android s call)) = Resolved None
      \<or> snd (snd (lock_android s call))
           = Rejected ''Could not lock orientation'' (Some NullPointerException))
   \<and> (orientationOption call = None \<longrightarrow>
      lock_ios t call = (t, [], Rejected ''Orientation parameter is required'' None))
   \<and> (orientationOption call \<noteq> None \<longrightarrow> snd (snd (lock_ios t call)) = Resolved None)"
proof -
  have a1: "orientationOption call = None \<longrightarrow>
      lock_android s call = (s, [], Rejected ''Orientation parameter is required'' None)"
    by (simp add: lock_android_def)
  have a2: "orientationOption call \<noteq> None \<and> activity s \<noteq> None
        \<and> (accelerometer s \<longrightarrow> sensorManager s) \<longrightarrow>
      snd (snd (lock_android s call)) = Resolved None"
    by (auto simp add: lock_android_def startMotionTracking_android_def Let_def
          split: option.splits)
  have a3: "orientationOption call \<noteq> None \<longrightarrow>
      snd (snd (lock_android s call)) = Resolved None
      \<or> snd (snd (lock_android s call))
           = Rejected ''Could not lock orientation'' (Some NullPointerException)"
    by (auto simp add: lock_android_def startMotionTracking_android_def Let_def
          split: option.splits)
  have i1: "orientationOption call = None \<longrightarrow>
      lock_ios t call = (t, [], Rejected ''Orientation parameter is required'' None)"
    by (simp add: lock_ios_def)
  have i2: "orientationOption call \<noteq> None \<longrightarrow> snd (snd (lock_ios t call)) = Resolved None"
    by (auto simp add: lock_ios_def Let_def split: option.splits prod.splits)
  from a1 a2 a3 i1 i2 show ?thesis by blast
qed

theorem lock_outcome_witness:
  "lock_android fresh_android \<lparr>orientationOption = None, bypassOrientationLockOption = Some True\<rparr>
     = (fresh_android, [], Rejected ''Orientation parameter is required'' None)
   \<and> snd (snd (lock_android fresh_android
        \<lparr>orientationOption = Some ''portrait'', bypassOrientationLockOption = Some True\<rparr>))
     = Resolved None
   \<and> isTrackingMotion (fst (lock_android fresh_android
        \<lparr>orientationOption = Some ''portrait'', bypassOrientationLockOption = Some True\<rparr>))
   \<and> lock_ios fresh_ios \<lparr>orientationOption = None, bypassOrientationLockOption = None\<rparr>
     = (fresh_ios, [], Rejected ''Orientation parameter is required'' None)
   \<and> snd (snd (lock_ios fresh_ios
        \<lparr>orientationOption = Some ''landscape'', bypassOrientationLockOption = None\<rparr>))
     = Resolved None"
  using lock_outcome [of "\<lparr>orientationOption = None, bypassOrientationLockOption = Some True\<rparr>"
                         fresh_android fresh_ios]
        lock_outcome [of "\<lparr>orientationOption = Some ''portrait'',
                            bypassOrientationLockOption = Some True\<rparr>" fresh_android fresh_ios]
        lock_outcome [of "\<lparr>orientationOption = None, bypassOrientationLockOption = None\<rparr>"
                         fresh_android fresh_ios]
        lock_outcome [of "\<lparr>orientationOption = Some ''landscape'',
                            bypassOrientationLockOption = None\<rparr>" fresh_android fresh_ios]
  by (simp add: fresh_android_def lock_android_def startMotionTracking_android_def)

end
